theory Spec2Isabelle
  imports Complex_Main "HOL-Library.AList" "HOL-Library.Monad_Syntax"
begin

section \<open>JavaScript values used by the parsing pipeline\<close>

text \<open>
  The pipeline of \<^verbatim>\<open>src/lib/excel-parser.ts\<close> and the merge of
  \<^verbatim>\<open>src/app/page.tsx\<close> are embedded as HOL functions.

  \<^item> A JavaScript string is a \<^typ>\<open>string\<close>: a list of code units below 256
    (ISO 8859-1). On these, \<^verbatim>\<open>trim\<close>, \<^verbatim>\<open>\s\<close>, \<^verbatim>\<open>\d\<close>,
    \<^verbatim>\<open>toLowerCase\<close> and \<^verbatim>\<open>normalize('NFD')\<close> are written out below.
  \<^item> A JavaScript number is an exact rational (coordinates) or an integer (cell
    values, counters); the rounding of IEEE-754 doubles is not part of the model.
  \<^item> A valid \<^verbatim>\<open>Date\<close> is its \<^verbatim>\<open>getTime()\<close>, an integer of milliseconds.
\<close>

type_synonym date = int

text \<open>\<^verbatim>\<open>\d\<close> of a regular expression without the \<^verbatim>\<open>u\<close> flag.\<close>

definition is_digit :: "char \<Rightarrow> bool" where
  "is_digit c \<longleftrightarrow> c \<in> set ''0123456789''"

text \<open>
  \<^verbatim>\<open>\s\<close> and the characters removed by \<^verbatim>\<open>trim()\<close>: TAB, LF, VT, FF, CR,
  SPACE and NO-BREAK SPACE are the white space and line terminators below 256.
\<close>

definition is_space :: "char \<Rightarrow> bool" where
  "is_space c \<longleftrightarrow>
     c \<in> set [CHR 0x09, CHR 0x0A, CHR 0x0B, CHR 0x0C, CHR 0x0D, CHR 0x20, CHR 0xA0]"

definition trim :: "string \<Rightarrow> string" where
  "trim s = rev (dropWhile is_space (rev (dropWhile is_space s)))"

definition startsWith :: "string \<Rightarrow> string \<Rightarrow> bool" where
  "startsWith s p \<longleftrightarrow> take (length p) s = p"

text \<open>\<^verbatim>\<open>s.includes(p)\<close>: \<open>p\<close> occurs in \<open>s\<close> at some position.\<close>

fun js_includes :: "string \<Rightarrow> string \<Rightarrow> bool" where
  "js_includes [] p = (p = [])"
| "js_includes (c # s) p = (startsWith (c # s) p \<or> js_includes s p)"

text \<open>
  \<^verbatim>\<open>toLowerCase()\<close> below 256: the letters A to Z and the accented capitals
  U+00C0 to U+00DE (the multiplication sign U+00D7 apart) move up by 32.
\<close>

definition upper_chars :: string where
  "upper_chars = ''ABCDEFGHIJKLMNOPQRSTUVWXYZ'' @
     [CHR 0xC0, CHR 0xC1, CHR 0xC2, CHR 0xC3, CHR 0xC4, CHR 0xC5, CHR 0xC6, CHR 0xC7,
      CHR 0xC8, CHR 0xC9, CHR 0xCA, CHR 0xCB, CHR 0xCC, CHR 0xCD, CHR 0xCE, CHR 0xCF,
      CHR 0xD0, CHR 0xD1, CHR 0xD2, CHR 0xD3, CHR 0xD4, CHR 0xD5, CHR 0xD6,
      CHR 0xD8, CHR 0xD9, CHR 0xDA, CHR 0xDB, CHR 0xDC, CHR 0xDD, CHR 0xDE]"

definition lower_chars :: string where
  "lower_chars = ''abcdefghijklmnopqrstuvwxyz'' @
     [CHR 0xE0, CHR 0xE1, CHR 0xE2, CHR 0xE3, CHR 0xE4, CHR 0xE5, CHR 0xE6, CHR 0xE7,
      CHR 0xE8, CHR 0xE9, CHR 0xEA, CHR 0xEB, CHR 0xEC, CHR 0xED, CHR 0xEE, CHR 0xEF,
      CHR 0xF0, CHR 0xF1, CHR 0xF2, CHR 0xF3, CHR 0xF4, CHR 0xF5, CHR 0xF6,
      CHR 0xF8, CHR 0xF9, CHR 0xFA, CHR 0xFB, CHR 0xFC, CHR 0xFD, CHR 0xFE]"

definition lower_char :: "char \<Rightarrow> char" where
  "lower_char c = (case map_of (zip upper_chars lower_chars) c of None \<Rightarrow> c | Some d \<Rightarrow> d)"

definition toLowerCase :: "string \<Rightarrow> string" where
  "toLowerCase s = map lower_char s"

text \<open>
  \<^verbatim>\<open>normalize('NFD')\<close> followed by the removal of the combining marks U+0300 to
  U+036F, on a lower-cased string:
  an accented letter decomposes into its base letter and combining marks, and the marks
  are removed. The letters below 256 without a canonical decomposition
  (U+00E6, U+00F0, U+00F8, U+00FE, U+00DF) stay.
\<close>

definition accent_table :: "(char \<times> char) list" where
  "accent_table =
     [(CHR 0xE0, CHR ''a''), (CHR 0xE1, CHR ''a''), (CHR 0xE2, CHR ''a''),
      (CHR 0xE3, CHR ''a''), (CHR 0xE4, CHR ''a''), (CHR 0xE5, CHR ''a''),
      (CHR 0xE7, CHR ''c''),
      (CHR 0xE8, CHR ''e''), (CHR 0xE9, CHR ''e''), (CHR 0xEA, CHR ''e''),
      (CHR 0xEB, CHR ''e''),
      (CHR 0xEC, CHR ''i''), (CHR 0xED, CHR ''i''), (CHR 0xEE, CHR ''i''),
      (CHR 0xEF, CHR ''i''),
      (CHR 0xF1, CHR ''n''),
      (CHR 0xF2, CHR ''o''), (CHR 0xF3, CHR ''o''), (CHR 0xF4, CHR ''o''),
      (CHR 0xF5, CHR ''o''), (CHR 0xF6, CHR ''o''),
      (CHR 0xF9, CHR ''u''), (CHR 0xFA, CHR ''u''), (CHR 0xFB, CHR ''u''),
      (CHR 0xFC, CHR ''u''),
      (CHR 0xFD, CHR ''y''), (CHR 0xFF, CHR ''y'')]"

definition strip_accent :: "char \<Rightarrow> char" where
  "strip_accent c = (case map_of accent_table c of None \<Rightarrow> c | Some d \<Rightarrow> d)"

definition normalizeString :: "string \<Rightarrow> string" where
  "normalizeString str = map strip_accent (toLowerCase str)"

subsection \<open>Cell values and the runtime\<close>

text \<open>
  A cell of a row produced by \<^verbatim>\<open>XLSX.utils.sheet_to_json\<close> (the \<^verbatim>\<open>unknown\<close>
  of the source): a string, a number (integral in the model, below \<open>2^53\<close> in
  magnitude), a boolean, a \<^verbatim>\<open>Date\<close> (the workbook is read with
  \<^verbatim>\<open>cellDates\<close>), or \<^verbatim>\<open>undefined\<close> for a key the row does not have.
\<close>

datatype cell = CUndef | CStr string | CNum int | CBool bool | CDate date

text \<open>
  What the source takes from the JavaScript runtime and from the \<^verbatim>\<open>xlsx\<close>
  library is a parameter of the model:
  \<^item> \<open>parse_date_code\<close>: \<^verbatim>\<open>XLSX.SSF.parse_date_code\<close>, giving
    \<open>(y, m, d, H, M, S)\<close> or nothing;
  \<^item> \<open>make_date\<close>: \<^verbatim>\<open>new Date(y, m, d, H, M, S)\<close> in the local time zone;
  \<^item> \<open>date_parse\<close>: \<^verbatim>\<open>new Date(s)\<close> of a string, \<open>None\<close> when its time is NaN;
  \<^item> \<open>date_toString\<close>: \<^verbatim>\<open>String(d)\<close> of a date;
  \<^item> \<open>date_locale\<close>: \<^verbatim>\<open>d.toLocaleDateString('fr-FR')\<close>;
  \<^item> \<open>clock\<close>: \<^verbatim>\<open>new Date()\<close> as evaluated while row \<open>i\<close> of the \<open>k\<close>-th
    listing sheet parsed for a file (0 the calls sheet, 1 the SMS sheet) is extracted;
  \<^item> \<open>fresh_id\<close>: the identifier generated for that row,
    \<^verbatim>\<open>record-${i}-${Date.now()}-${Math.random()...}\<close>.
\<close>

record runtime =
  parse_date_code :: "int \<Rightarrow> (int \<times> int \<times> int \<times> int \<times> int \<times> int) option"
  make_date :: "int \<Rightarrow> int \<Rightarrow> int \<Rightarrow> int \<Rightarrow> int \<Rightarrow> int \<Rightarrow> date"
  date_parse :: "string \<Rightarrow> date option"
  date_toString :: "date \<Rightarrow> string"
  date_locale :: "date \<Rightarrow> string"
  clock :: "nat \<Rightarrow> nat \<Rightarrow> date"
  fresh_id :: "nat \<Rightarrow> nat \<Rightarrow> string"

text \<open>JavaScript truthiness (\<^verbatim>\<open>!x\<close> is its negation).\<close>

fun truthy :: "cell \<Rightarrow> bool" where
  "truthy CUndef = False"
| "truthy (CStr s) = (s \<noteq> [])"
| "truthy (CNum n) = (n \<noteq> 0)"
| "truthy (CBool b) = b"
| "truthy (CDate d) = True"

text \<open>Decimal digits of a natural number, as \<^verbatim>\<open>String(n)\<close> writes them.\<close>

fun digit_char :: "nat \<Rightarrow> char" where
  "digit_char n = (''0123456789'') ! (n mod 10)"

fun nat_digits :: "nat \<Rightarrow> string" where
  "nat_digits n = (if n < 10 then [digit_char n] else nat_digits (n div 10) @ [digit_char n])"

declare nat_digits.simps [simp del]

fun js_String :: "runtime \<Rightarrow> cell \<Rightarrow> string" where
  "js_String rt CUndef = ''undefined''"
| "js_String rt (CStr s) = s"
| "js_String rt (CNum n) = (if n < 0 then CHR ''-'' # nat_digits (nat (- n)) else nat_digits (nat n))"
| "js_String rt (CBool b) = (if b then ''true'' else ''false'')"
| "js_String rt (CDate d) = date_toString rt d"

section \<open>Field Normalizer: phone numbers\<close>

text \<open>
  \<^verbatim>\<open>
  export function normalizePhoneNumber(phone: unknown): string {
    if (!phone) return '';
    let phoneStr = String(phone).trim();
    if (phoneStr.startsWith('237')) { phoneStr = phoneStr.substring(3); }
    phoneStr = phoneStr.replace(/\D/g, '');
    return phoneStr;
  }
  \<close>
\<close>

definition normalizePhoneNumber :: "runtime \<Rightarrow> cell \<Rightarrow> string" where
  "normalizePhoneNumber rt phone =
     (if \<not> truthy phone then []
      else let phoneStr = trim (js_String rt phone);
               phoneStr = (if startsWith phoneStr ''237'' then drop 3 phoneStr else phoneStr)
           in filter is_digit phoneStr)"

section \<open>Sheet Classifier: listing sheets\<close>

text \<open>
  \<^verbatim>\<open>
  let callsSheet: string | null = null;
  let smsSheet: string | null = null;
  for (const name of sheetNames) {
    const normalized = normalizeString(name);
    if (normalized.includes('listing appel')) { callsSheet = name; }
    if (normalized.includes('listing sms')) { smsSheet = name; }
    if (normalized === 'listing' && !callsSheet) { callsSheet = name; }
  }
  return { calls: callsSheet, sms: smsSheet };
  \<close>
  \<^verbatim>\<open>!callsSheet\<close> holds for \<^verbatim>\<open>null\<close> and for the empty string.
\<close>

record listing_sheets =
  calls :: "string option"
  sms :: "string option"

fun falsy_name :: "string option \<Rightarrow> bool" where
  "falsy_name None = True"
| "falsy_name (Some n) = (n = [])"

definition findListingSheets_step :: "listing_sheets \<Rightarrow> string \<Rightarrow> listing_sheets" where
  "findListingSheets_step st name =
     (let normalized = normalizeString name;
          st = (if js_includes normalized ''listing appel'' then st\<lparr>calls := Some name\<rparr> else st);
          st = (if js_includes normalized ''listing sms'' then st\<lparr>sms := Some name\<rparr> else st)
      in if normalized = ''listing'' \<and> falsy_name (calls st) then st\<lparr>calls := Some name\<rparr> else st)"

definition findListingSheets :: "string list \<Rightarrow> listing_sheets" where
  "findListingSheets sheetNames =
     foldl findListingSheets_step \<lparr>calls = None, sms = None\<rparr> sheetNames"

section \<open>Column Inferencer\<close>

text \<open>
  \<^verbatim>\<open>
  for (const col of columns) {
    const normalized = normalizeString(col);
    if (normalized.includes('localisation')) { locationCol = col; }
    else if (normalized.includes('imei')) { imeiCol = col; }
    else if (normalized.startsWith('numero appelant') ||
             normalized.startsWith('numero emetteur')) { callerNumberCol = col; }
    else if (normalized.startsWith('numero appele') ||
             normalized.startsWith('numero recepteur')) { calledNumberCol = col; }
    else if (normalized.includes('date')) { dateCol = col; }
    else if (normalized.includes('duree')) { durationCol = col; }
  }
  \<close>
\<close>

record columns =
  callerNumberCol :: "string option"
  calledNumberCol :: "string option"
  imeiCol :: "string option"
  dateCol :: "string option"
  durationCol :: "string option"
  locationCol :: "string option"

definition identifyColumns_step :: "columns \<Rightarrow> string \<Rightarrow> columns" where
  "identifyColumns_step st col =
     (let normalized = normalizeString col
      in if js_includes normalized ''localisation'' then st\<lparr>locationCol := Some col\<rparr>
         else if js_includes normalized ''imei'' then st\<lparr>imeiCol := Some col\<rparr>
         else if startsWith normalized ''numero appelant'' \<or>
                 startsWith normalized ''numero emetteur'' then st\<lparr>callerNumberCol := Some col\<rparr>
         else if startsWith normalized ''numero appele'' \<or>
                 startsWith normalized ''numero recepteur'' then st\<lparr>calledNumberCol := Some col\<rparr>
         else if js_includes normalized ''date'' then st\<lparr>dateCol := Some col\<rparr>
         else if js_includes normalized ''duree'' then st\<lparr>durationCol := Some col\<rparr>
         else st)"

definition identifyColumns :: "string list \<Rightarrow> columns" where
  "identifyColumns cols =
     foldl identifyColumns_step
       \<lparr>callerNumberCol = None, calledNumberCol = None, imeiCol = None,
        dateCol = None, durationCol = None, locationCol = None\<rparr> cols"




section \<open>Data model\<close>

record LocationData =
  siteName :: string
  cellId :: string
  longitude :: rat
  latitude :: rat
  azimuth :: string
  region :: "string option"

text \<open>
  \<open>dateTime\<close> is declared a \<^verbatim>\<open>Date\<close>; the aggregator tests it for presence, so
  the model lets it be absent. Three fields are renamed, since a field name is a constant
  of its own: \<open>id_str\<close> is \<^verbatim>\<open>CallRecord.id\<close>, \<open>sub_number\<close> is
  \<^verbatim>\<open>SubscriberInfo.number\<close>, and \<open>phone_imei\<close> is \<^verbatim>\<open>PhoneNumber.imei\<close>. An
  optional field is an \<open>option\<close>.
\<close>

record CallRecord =
  id_str :: string
  callerNumber :: string
  calledNumber :: string
  imei :: string
  dateTime :: "date option"
  duration :: string
  location :: "LocationData option"
  rawLocation :: string

record SubscriberInfo =
  sub_number :: string
  fullName :: string
  birthDate :: "string option"
  cniNumber :: "string option"
  cniExpiration :: "string option"
  address :: "string option"

record PhoneNumber =
  number :: string
  identity :: "string option"
  operator :: "string option"
  phone_imei :: "string option"
  callCount :: nat
  smsCount :: nat
  firstActivity :: "date option"
  lastActivity :: "date option"
  locations :: "LocationData list"
  records :: "CallRecord list"

section \<open>Location-String Decoder\<close>

text \<open>
  A regular expression is matched at the leftmost position where a match exists:
  \<open>regex_search\<close> tries a matcher for one position on every suffix in turn. The
  matchers below take the greedy choice at each repetition; in the expressions of the
  source the characters a repetition accepts never start what follows it, so no other
  choice can match.
\<close>

fun regex_search :: "(string \<Rightarrow> 'a option) \<Rightarrow> string \<Rightarrow> 'a option" where
  "regex_search m [] = m []"
| "regex_search m (c # s) = (case m (c # s) of Some r \<Rightarrow> Some r | None \<Rightarrow> regex_search m s)"

text \<open>
  A literal under the \<^verbatim>\<open>i\<close> flag; \<open>p\<close> is given in lower case. Below 256 only
  the two cases of an ASCII letter are equal under the flag.
\<close>

definition expect_ci :: "string \<Rightarrow> string \<Rightarrow> string option" where
  "expect_ci p s =
     (if toLowerCase (take (length p) s) = p then Some (drop (length p) s) else None)"

text \<open>The class \<^verbatim>\<open>[\d.-]\<close>.\<close>

definition coord_char :: "char \<Rightarrow> bool" where
  "coord_char c \<longleftrightarrow> is_digit c \<or> c = CHR ''.'' \<or> c = CHR ''-''"

text \<open>\<^verbatim>\<open>/Long:\s*([\d.-]+)\s*Lat:\s*([\d.-]+)/i\<close> at one position: the two groups.\<close>

definition location_match_at :: "string \<Rightarrow> (string \<times> string) option" where
  "location_match_at s =
     (case expect_ci ''long:'' s of
        None \<Rightarrow> None
      | Some s1 \<Rightarrow>
          (let s2 = dropWhile is_space s1;
               g1 = takeWhile coord_char s2;
               s3 = dropWhile is_space (dropWhile coord_char s2)
           in if g1 = [] then None
              else (case expect_ci ''lat:'' s3 of
                      None \<Rightarrow> None
                    | Some s4 \<Rightarrow>
                        (let g2 = takeWhile coord_char (dropWhile is_space s4)
                         in if g2 = [] then None else Some (g1, g2)))))"

text \<open>The class \<^verbatim>\<open>[^\s)]\<close>.\<close>

definition token_char :: "char \<Rightarrow> bool" where
  "token_char c \<longleftrightarrow> \<not> is_space c \<and> c \<noteq> CHR '')''"

text \<open>\<^verbatim>\<open>/Cell:\s*([^\s)]+)/i\<close> and \<^verbatim>\<open>/Azimut:\s*([^\s)]*)/i\<close> at one position.\<close>

definition cell_match_at :: "string \<Rightarrow> string option" where
  "cell_match_at s =
     (case expect_ci ''cell:'' s of
        None \<Rightarrow> None
      | Some s1 \<Rightarrow>
          (let g = takeWhile token_char (dropWhile is_space s1)
           in if g = [] then None else Some g))"

definition azimuth_match_at :: "string \<Rightarrow> string option" where
  "azimuth_match_at s =
     (case expect_ci ''azimut:'' s of
        None \<Rightarrow> None
      | Some s1 \<Rightarrow> Some (takeWhile token_char (dropWhile is_space s1)))"

text \<open>The value of a string of decimal digits.\<close>

definition digit_value :: "char \<Rightarrow> int" where
  "digit_value c = (case map_of (zip ''0123456789'' [0, 1, 2, 3, 4, 5, 6, 7, 8, 9]) c of
                      None \<Rightarrow> 0 | Some d \<Rightarrow> d)"

definition digits_value :: "string \<Rightarrow> int" where
  "digits_value ds = foldl (\<lambda>a c. 10 * a + digit_value c) 0 ds"

text \<open>
  \<^verbatim>\<open>parseFloat\<close> on the strings the groups of the location expression give
  (digits, dots and minus signs, so neither an exponent nor \<^verbatim>\<open>Infinity\<close>): the
  longest prefix that is an optional sign, digits, and an optional dot with digits, is
  read as a decimal number; \<open>None\<close> is NaN, when that prefix has no digit. The result is
  the exact rational.
\<close>

definition parseFloat :: "string \<Rightarrow> rat option" where
  "parseFloat str =
     (let s = dropWhile is_space str;
          neg = (s \<noteq> [] \<and> hd s = CHR ''-'');
          s = (if s \<noteq> [] \<and> (hd s = CHR ''-'' \<or> hd s = CHR ''+'') then tl s else s);
          ip = takeWhile is_digit s;
          r = dropWhile is_digit s;
          fp = (if r \<noteq> [] \<and> hd r = CHR ''.'' then takeWhile is_digit (tl r) else [])
      in if ip = [] \<and> fp = [] then None
         else (let v = of_int (digits_value ip) + of_int (digits_value fp) / 10 ^ length fp
               in Some (if neg then - v else v)))"

text \<open>\<^verbatim>\<open>s.split(sep)[0]\<close>: the text before the first occurrence of \<open>sep\<close>.\<close>

fun before_sep :: "string \<Rightarrow> string \<Rightarrow> string" where
  "before_sep sep [] = []"
| "before_sep sep (c # s) = (if startsWith (c # s) sep then [] else c # before_sep sep s)"

text \<open>
  \<^verbatim>\<open>
  export function parseLocationString(locationStr: string): LocationData | null {
    if (!locationStr || locationStr === '--' || locationStr.trim() === ''
        || locationStr === 'Site inconnu') { return null; }
    const match = locationStr.match(LOCATION_REGEX);
    if (match) {
      const longitude = parseFloat(match[1]);
      const latitude = parseFloat(match[2]);
      if (isNaN(longitude) || isNaN(latitude)) { return null; }
      if (latitude < -90 || latitude > 90 || longitude < -180 || longitude > 180) {
        return null; }
      let siteName = locationStr.split('(')[0].trim();
      if (!siteName || siteName.toLowerCase().includes('long:')) {
        siteName = locationStr.split('Long:')[0].trim(); }
      if (!siteName) { siteName = 'Site inconnu'; }
      const cellMatch = locationStr.match(/Cell:\s*([^\s)]+)/i);
      const cellId = cellMatch ? cellMatch[1] : '';
      const azimuthMatch = locationStr.match(/Azimut:\s*([^\s)]*)/i);
      const azimuth = azimuthMatch ? azimuthMatch[1] || '-' : '-';
      return { siteName, cellId, longitude, latitude, azimuth };
    }
    return null;
  }
  \<close>
\<close>

definition site_name :: "string \<Rightarrow> string" where
  "site_name locationStr =
     (let siteName = trim (before_sep ''('' locationStr);
          siteName = (if siteName = [] \<or> js_includes (toLowerCase siteName) ''long:''
                      then trim (before_sep ''Long:'' locationStr) else siteName)
      in if siteName = [] then ''Site inconnu'' else siteName)"

definition parseLocationString :: "string \<Rightarrow> LocationData option" where
  "parseLocationString locationStr =
     (if locationStr = [] \<or> locationStr = ''--'' \<or> trim locationStr = []
         \<or> locationStr = ''Site inconnu'' then None
      else (case regex_search location_match_at locationStr of
              None \<Rightarrow> None
            | Some (g1, g2) \<Rightarrow>
                (case (parseFloat g1, parseFloat g2) of
                   (Some lon, Some lat) \<Rightarrow>
                     if lat < - 90 \<or> lat > 90 \<or> lon < - 180 \<or> lon > 180 then None
                     else Some \<lparr>siteName = site_name locationStr,
                                cellId = (case regex_search cell_match_at locationStr of
                                            None \<Rightarrow> [] | Some g \<Rightarrow> g),
                                longitude = lon, latitude = lat,
                                azimuth = (case regex_search azimuth_match_at locationStr of
                                             None \<Rightarrow> ''-''
                                           | Some g \<Rightarrow> if g = [] then ''-'' else g),
                                region = None\<rparr>
                 | _ \<Rightarrow> None)))"

section \<open>Field Normalizer: dates\<close>

text \<open>\<^verbatim>\<open>\d{n}\<close>, one given character, and \<^verbatim>\<open>\s+\<close>, each returning the rest.\<close>

definition take_digits :: "nat \<Rightarrow> string \<Rightarrow> (string \<times> string) option" where
  "take_digits n s =
     (if n \<le> length s \<and> list_all is_digit (take n s) then Some (take n s, drop n s) else None)"

definition expect_char :: "char \<Rightarrow> string \<Rightarrow> string option" where
  "expect_char c s = (case s of [] \<Rightarrow> None | x # r \<Rightarrow> if x = c then Some r else None)"

definition some_spaces :: "string \<Rightarrow> string option" where
  "some_spaces s = (case s of [] \<Rightarrow> None
                    | x # r \<Rightarrow> if is_space x then Some (dropWhile is_space r) else None)"

text \<open>
  \<^verbatim>\<open>/(\d{2})\/(\d{2})\/(\d{4})\s+(\d{2}):(\d{2}):(\d{2})/\<close> at one position, and the
  same with \<^verbatim>\<open>-\<close> as the separator: the six groups.
\<close>

definition date_match_at ::
  "char \<Rightarrow> string \<Rightarrow> (string \<times> string \<times> string \<times> string \<times> string \<times> string) option" where
  "date_match_at sep s0 = do {
     (g1, s) \<leftarrow> take_digits 2 s0;
     s \<leftarrow> expect_char sep s;
     (g2, s) \<leftarrow> take_digits 2 s;
     s \<leftarrow> expect_char sep s;
     (g3, s) \<leftarrow> take_digits 4 s;
     s \<leftarrow> some_spaces s;
     (g4, s) \<leftarrow> take_digits 2 s;
     s \<leftarrow> expect_char (CHR '':'') s;
     (g5, s) \<leftarrow> take_digits 2 s;
     s \<leftarrow> expect_char (CHR '':'') s;
     (g6, s) \<leftarrow> take_digits 2 s;
     Some (g1, g2, g3, g4, g5, g6) }"

text \<open>
  \<^verbatim>\<open>new Date(parseInt(m[3]), parseInt(m[2]) - 1, parseInt(m[1]),
  parseInt(m[4]), parseInt(m[5]), parseInt(m[6]))\<close>
\<close>

definition date_of_groups ::
  "runtime \<Rightarrow> string \<times> string \<times> string \<times> string \<times> string \<times> string \<Rightarrow> date" where
  "date_of_groups rt g =
     (case g of (g1, g2, g3, g4, g5, g6) \<Rightarrow>
        make_date rt (digits_value g3) (digits_value g2 - 1) (digits_value g1)
          (digits_value g4) (digits_value g5) (digits_value g6))"

text \<open>
  \<^verbatim>\<open>
  export function parseExcelDate(dateValue: unknown): Date | null {
    if (!dateValue) return null;
    if (dateValue instanceof Date) { return dateValue; }
    if (typeof dateValue === 'number') {
      const date = XLSX.SSF.parse_date_code(dateValue);
      if (date) { return new Date(date.y, date.m - 1, date.d,
                                  date.H || 0, date.M || 0, date.S || 0); } }
    if (typeof dateValue === 'string') {
      const match1 = dateValue.match(/(\d{2})\/(\d{2})\/(\d{4})\s+(\d{2}):(\d{2}):(\d{2})/);
      if (match1) { return new Date(...); }
      const match2 = dateValue.match(/(\d{2})-(\d{2})-(\d{4})\s+(\d{2}):(\d{2}):(\d{2})/);
      if (match2) { return new Date(...); }
      const isoDate = new Date(dateValue);
      if (!isNaN(isoDate.getTime())) { return isoDate; } }
    return null;
  }
  \<close>
\<close>

definition parseExcelDate :: "runtime \<Rightarrow> cell \<Rightarrow> date option" where
  "parseExcelDate rt dateValue =
     (if \<not> truthy dateValue then None
      else (case dateValue of
              CDate d \<Rightarrow> Some d
            | CNum n \<Rightarrow>
                (case parse_date_code rt n of
                   None \<Rightarrow> None
                 | Some (y, m, d, H, M, S) \<Rightarrow> Some (make_date rt y (m - 1) d H M S))
            | CStr s \<Rightarrow>
                (case regex_search (date_match_at (CHR ''/'')) s of
                   Some g \<Rightarrow> Some (date_of_groups rt g)
                 | None \<Rightarrow>
                     (case regex_search (date_match_at (CHR ''-'')) s of
                        Some g \<Rightarrow> Some (date_of_groups rt g)
                      | None \<Rightarrow> date_parse rt s))
            | _ \<Rightarrow> None))"

section \<open>Record Extractor\<close>

text \<open>
  A row of \<^verbatim>\<open>sheet_to_json\<close> is an object: the list of its keys, in the order
  \<^verbatim>\<open>Object.keys\<close> gives them, with their values. \<^verbatim>\<open>row[col]\<close> of a key the
  row does not have is \<^verbatim>\<open>undefined\<close>.
\<close>

type_synonym row = "(string \<times> cell) list"

type_synonym sheet = "row list"

definition row_get :: "row \<Rightarrow> string \<Rightarrow> cell" where
  "row_get r col = (case map_of r col of None \<Rightarrow> CUndef | Some c \<Rightarrow> c)"

text \<open>\<^verbatim>\<open>String(v || '').trim()\<close>\<close>

definition cell_text :: "runtime \<Rightarrow> cell \<Rightarrow> string" where
  "cell_text rt v = trim (js_String rt (if truthy v then v else CStr []))"

text \<open>\<^verbatim>\<open>col ? f(col) : d\<close> for a column name that is a string or \<^verbatim>\<open>null\<close>.\<close>

definition with_col :: "string option \<Rightarrow> 'a \<Rightarrow> (string \<Rightarrow> 'a) \<Rightarrow> 'a" where
  "with_col col d f = (if falsy_name col then d else f (the col))"

text \<open>
  The body of the loop of \<^verbatim>\<open>parseListingSheet\<close> for row \<open>i\<close>: the record, or
  nothing when the row has neither number.
  \<^verbatim>\<open>
  const callerNumber = callerNumberCol ? normalizePhoneNumber(row[callerNumberCol]) : '';
  const calledNumber = calledNumberCol ? normalizePhoneNumber(row[calledNumberCol]) : '';
  const imei = imeiCol ? String(row[imeiCol] || '').trim() : '';
  const dateTime = dateCol ? parseExcelDate(row[dateCol]) : null;
  const duration = durationCol ? String(row[durationCol] || '').trim() : '';
  const locationStr = locationCol ? String(row[locationCol] || '').trim() : '';
  const location = parseLocationString(locationStr);
  if (callerNumber || calledNumber) {
    records.push({ id: ..., callerNumber, calledNumber, imei,
      dateTime: dateTime || new Date(), duration, location, rawLocation: locationStr }); }
  \<close>
\<close>

definition parse_row :: "runtime \<Rightarrow> columns \<Rightarrow> nat \<Rightarrow> nat \<Rightarrow> row \<Rightarrow> CallRecord option" where
  "parse_row rt cols k i r =
     (let callerNumber' = with_col (callerNumberCol cols) [] (\<lambda>c. normalizePhoneNumber rt (row_get r c));
          calledNumber' = with_col (calledNumberCol cols) [] (\<lambda>c. normalizePhoneNumber rt (row_get r c));
          imei' = with_col (imeiCol cols) [] (\<lambda>c. cell_text rt (row_get r c));
          dateTime' = with_col (dateCol cols) None (\<lambda>c. parseExcelDate rt (row_get r c));
          duration' = with_col (durationCol cols) [] (\<lambda>c. cell_text rt (row_get r c));
          locationStr = with_col (locationCol cols) [] (\<lambda>c. cell_text rt (row_get r c));
          location' = parseLocationString locationStr
      in if callerNumber' \<noteq> [] \<or> calledNumber' \<noteq> [] then
           Some \<lparr>id_str = fresh_id rt k i, callerNumber = callerNumber',
                 calledNumber = calledNumber', imei = imei',
                 dateTime = Some (case dateTime' of None \<Rightarrow> clock rt k i | Some d \<Rightarrow> d),
                 duration = duration', location = location', rawLocation = locationStr\<rparr>
         else None)"

text \<open>
  \<^verbatim>\<open>parseListingSheet\<close>: the columns are inferred from the keys of the first row;
  \<open>k\<close> tells the runtime which sheet of the file is being parsed.
\<close>

definition parseListingSheet :: "runtime \<Rightarrow> nat \<Rightarrow> sheet \<Rightarrow> CallRecord list" where
  "parseListingSheet rt k data =
     (case data of
        [] \<Rightarrow> []
      | first # _ \<Rightarrow>
          (let cols = identifyColumns (map fst first)
           in List.map_filter (\<lambda>(i, r). parse_row rt cols k i r) (zip [0..<length data] data)))"

section \<open>Aggregator\<close>

text \<open>
  The \<^verbatim>\<open>Map<string, PhoneNumber>\<close> is an association list in insertion order;
  a number is inserted once, at the end, and its entry is then updated in place
  (\<^const>\<open>AList.update\<close> does both).
\<close>

type_synonym phone_map = "(string \<times> PhoneNumber) list"

text \<open>\<^verbatim>\<open>new Map(subscribers.map(s => [s.number, s]))\<close>: the last entry of a number wins.\<close>

definition subscriber_map :: "SubscriberInfo list \<Rightarrow> string \<rightharpoonup> SubscriberInfo" where
  "subscriber_map subscribers = map_of (rev (map (\<lambda>s. (sub_number s, s)) subscribers))"

definition new_phone :: "(string \<rightharpoonup> SubscriberInfo) \<Rightarrow> string \<Rightarrow> PhoneNumber" where
  "new_phone subscriberMap n =
     \<lparr>number = n, identity = map_option fullName (subscriberMap n), operator = None,
      phone_imei = None, callCount = 0, smsCount = 0, firstActivity = None,
      lastActivity = None, locations = [], records = []\<rparr>"

text \<open>
  \<^verbatim>\<open>record.duration === 'SMS' || record.duration.toLowerCase() === 'sms'\<close>
\<close>

definition is_sms :: "CallRecord \<Rightarrow> bool" where
  "is_sms r \<longleftrightarrow> duration r = ''SMS'' \<or> toLowerCase (duration r) = ''sms''"

text \<open>
  \<^verbatim>\<open>Math.abs(loc.latitude - l.latitude) < 0.0001 &&
  Math.abs(loc.longitude - l.longitude) < 0.0001\<close>
\<close>

definition near :: "LocationData \<Rightarrow> LocationData \<Rightarrow> bool" where
  "near loc l \<longleftrightarrow>
     \<bar>latitude loc - latitude l\<bar> < 1 / 10000 \<and> \<bar>longitude loc - longitude l\<bar> < 1 / 10000"

definition update_counts :: "CallRecord \<Rightarrow> PhoneNumber \<Rightarrow> PhoneNumber" where
  "update_counts r p =
     (if is_sms r then p\<lparr>smsCount := smsCount p + 1\<rparr> else p\<lparr>callCount := callCount p + 1\<rparr>)"

definition update_dates :: "CallRecord \<Rightarrow> PhoneNumber \<Rightarrow> PhoneNumber" where
  "update_dates r p =
     (case dateTime r of
        None \<Rightarrow> p
      | Some t \<Rightarrow>
          (let p = (if (case firstActivity p of None \<Rightarrow> True | Some f \<Rightarrow> t < f)
                    then p\<lparr>firstActivity := Some t\<rparr> else p)
           in if (case lastActivity p of None \<Rightarrow> True | Some l \<Rightarrow> t > l)
              then p\<lparr>lastActivity := Some t\<rparr> else p))"

definition update_locations :: "CallRecord \<Rightarrow> PhoneNumber \<Rightarrow> PhoneNumber" where
  "update_locations r p =
     (case location r of
        None \<Rightarrow> p
      | Some l \<Rightarrow>
          if list_ex (\<lambda>loc. near loc l) (locations p) then p
          else p\<lparr>locations := locations p @ [l]\<rparr>)"

text \<open>The body of the loop for a record that is not skipped, on the entry of its number.\<close>

definition fold_record :: "PhoneNumber \<Rightarrow> CallRecord \<Rightarrow> PhoneNumber" where
  "fold_record p r =
     (let p = update_counts r p;
          p = update_dates r p;
          p = update_locations r p
      in p\<lparr>records := records p @ [r]\<rparr>)"

text \<open>
  One iteration: \<^verbatim>\<open>if (!number || number.length < 6) continue;\<close>, then the entry
  is created if the map does not have the number, and updated.
\<close>

definition aggregate_record ::
  "(string \<rightharpoonup> SubscriberInfo) \<Rightarrow> phone_map \<Rightarrow> CallRecord \<Rightarrow> phone_map" where
  "aggregate_record subscriberMap phoneMap r =
     (let n = callerNumber r
      in if n = [] \<or> length n < 6 then phoneMap
         else (let phoneData = (case map_of phoneMap n of
                                  None \<Rightarrow> new_phone subscriberMap n
                                | Some p \<Rightarrow> p)
               in AList.update n (fold_record phoneData r) phoneMap))"

text \<open>
  \<^verbatim>\<open>
  phoneData.records.sort((a, b) => {
    const dateA = a.dateTime?.getTime() || 0;
    const dateB = b.dateTime?.getTime() || 0;
    return dateA - dateB; });
  \<close>
  \<^verbatim>\<open>Array.prototype.sort\<close> is stable, as \<^const>\<open>sort_key\<close> is.
\<close>

definition time_key :: "CallRecord \<Rightarrow> int" where
  "time_key r = (case dateTime r of None \<Rightarrow> 0 | Some t \<Rightarrow> t)"

definition sort_records :: "PhoneNumber \<Rightarrow> PhoneNumber" where
  "sort_records p = p\<lparr>records := sort_key time_key (records p)\<rparr>"

definition aggregateByPhoneNumber :: "CallRecord list \<Rightarrow> SubscriberInfo list \<Rightarrow> phone_map" where
  "aggregateByPhoneNumber recs subscribers =
     map (\<lambda>(n, p). (n, sort_records p))
       (foldl (aggregate_record (subscriber_map subscribers)) [] recs)"

section \<open>Parsing one file\<close>

text \<open>
  \<^verbatim>\<open>
  const subscriber: SubscriberInfo = { number: '', fullName: '' };
  for (const [key, value] of Object.entries(rowData)) {
    const normalizedKey = normalizeString(key);
    if (normalizedKey === 'numero' ||
        (normalizedKey.startsWith('numero') && !normalizedKey.includes('cni'))) {
      if (!subscriber.number) { subscriber.number = normalizePhoneNumber(value); } }
    else if (normalizedKey.includes('nom') && normalizedKey.includes('prenom')) {
      subscriber.fullName = String(value || '').trim(); }
    else if (normalizedKey.includes('date') && normalizedKey.includes('naissance')) {
      const date = parseExcelDate(value);
      subscriber.birthDate = date ? date.toLocaleDateString('fr-FR') : undefined; }
    else if (normalizedKey.includes('numero') && normalizedKey.includes('cni')) {
      subscriber.cniNumber = String(value || '').trim(); }
    else if (normalizedKey.includes('expiration')) {
      const date = parseExcelDate(value);
      subscriber.cniExpiration = date ? date.toLocaleDateString('fr-FR') : undefined; }
    else if (normalizedKey === 'adresse') {
      subscriber.address = String(value || '').trim(); }
  }
  if (subscriber.number) { subscribers.push(subscriber); }
  \<close>
\<close>

definition subscriber_step :: "runtime \<Rightarrow> SubscriberInfo \<Rightarrow> string \<times> cell \<Rightarrow> SubscriberInfo" where
  "subscriber_step rt sub kv =
     (case kv of (key, v) \<Rightarrow>
        (let normalizedKey = normalizeString key
         in if normalizedKey = ''numero'' \<or>
               (startsWith normalizedKey ''numero'' \<and> \<not> js_includes normalizedKey ''cni'')
            then (if sub_number sub = [] then sub\<lparr>sub_number := normalizePhoneNumber rt v\<rparr>
                  else sub)
            else if js_includes normalizedKey ''nom'' \<and> js_includes normalizedKey ''prenom''
            then sub\<lparr>fullName := cell_text rt v\<rparr>
            else if js_includes normalizedKey ''date'' \<and> js_includes normalizedKey ''naissance''
            then sub\<lparr>birthDate := map_option (date_locale rt) (parseExcelDate rt v)\<rparr>
            else if js_includes normalizedKey ''numero'' \<and> js_includes normalizedKey ''cni''
            then sub\<lparr>cniNumber := Some (cell_text rt v)\<rparr>
            else if js_includes normalizedKey ''expiration''
            then sub\<lparr>cniExpiration := map_option (date_locale rt) (parseExcelDate rt v)\<rparr>
            else if normalizedKey = ''adresse''
            then sub\<lparr>address := Some (cell_text rt v)\<rparr>
            else sub))"

definition parse_subscriber :: "runtime \<Rightarrow> row \<Rightarrow> SubscriberInfo" where
  "parse_subscriber rt r =
     foldl (subscriber_step rt)
       \<lparr>sub_number = [], fullName = [], birthDate = None, cniNumber = None,
        cniExpiration = None, address = None\<rparr> r"

definition parseSubscribersSheet :: "runtime \<Rightarrow> sheet \<Rightarrow> SubscriberInfo list" where
  "parseSubscribersSheet rt data =
     filter (\<lambda>sub. sub_number sub \<noteq> []) (map (parse_subscriber rt) data)"

datatype file_type = NUMERO | IMEI | CC

definition detectFileType :: "string list \<Rightarrow> file_type" where
  "detectFileType sheetNames =
     (let normalizedNames = map normalizeString sheetNames
      in if list_ex (\<lambda>n. js_includes n ''listing appel'' \<or> js_includes n ''listing sms'')
              normalizedNames then NUMERO
         else if list_ex (\<lambda>n. js_includes n ''imei partage'') normalizedNames then IMEI
         else CC)"

definition findSubscribersSheet :: "string list \<Rightarrow> string option" where
  "findSubscribersSheet sheetNames =
     find (\<lambda>name. js_includes (normalizeString name) ''identification'') sheetNames"

text \<open>
  A workbook as \<^verbatim>\<open>XLSX.read\<close> returns it: \<^verbatim>\<open>SheetNames\<close> in order, each with
  the rows \<^verbatim>\<open>sheet_to_json(Sheets[name], { defval: '' })\<close> gives.
\<close>

type_synonym workbook = "(string \<times> sheet) list"

definition sheet_of :: "workbook \<Rightarrow> string \<Rightarrow> sheet" where
  "sheet_of wb name = (case map_of wb name of None \<Rightarrow> [] | Some sh \<Rightarrow> sh)"

text \<open>
  \<^verbatim>\<open>
  smsRecords.forEach(record => {
    if (!record.duration || record.duration === '') { record.duration = 'SMS'; } });
  \<close>
\<close>

definition mark_sms :: "CallRecord \<Rightarrow> CallRecord" where
  "mark_sms r = (if duration r = [] \<or> duration r = [] then r\<lparr>duration := ''SMS''\<rparr> else r)"

text \<open>The records of \<^verbatim>\<open>parseExcelFile\<close>: the calls sheet, then the SMS sheet.\<close>

definition parse_records :: "runtime \<Rightarrow> workbook \<Rightarrow> CallRecord list" where
  "parse_records rt wb =
     (let listingSheets = findListingSheets (map fst wb);
          callRecords = (if falsy_name (calls listingSheets) then []
                         else parseListingSheet rt 0 (sheet_of wb (the (calls listingSheets))));
          smsRecords = (if falsy_name (sms listingSheets) then []
                        else map mark_sms
                               (parseListingSheet rt 1 (sheet_of wb (the (sms listingSheets)))))
      in callRecords @ smsRecords)"

record ParsedExcelData =
  fileName :: string
  fileType :: file_type
  phoneNumbers :: phone_map
  allRecords :: "CallRecord list"
  subscribers :: "SubscriberInfo list"

definition parseExcelFile :: "runtime \<Rightarrow> workbook \<Rightarrow> string \<Rightarrow> ParsedExcelData" where
  "parseExcelFile rt wb name =
     (let recs = parse_records rt wb;
          subs = (case findSubscribersSheet (map fst wb) of
                    None \<Rightarrow> []
                  | Some n \<Rightarrow> if n = [] then [] else parseSubscribersSheet rt (sheet_of wb n))
      in \<lparr>fileName = name, fileType = detectFileType (map fst wb),
          phoneNumbers = aggregateByPhoneNumber recs subs,
          allRecords = recs, subscribers = subs\<rparr>)"

section \<open>Multi-File Merger\<close>

text \<open>
  \<^verbatim>\<open>serializeParsedData\<close> turns the map into the array of its entries, each with
  \<^verbatim>\<open>number\<close> set to its key, and every date into its ISO string. An ISO string is
  identified with the time it denotes (\<^verbatim>\<open>new Date(iso).getTime()\<close> gives it back),
  so that an aggregate on the wire is a \<^typ>\<open>PhoneNumber\<close> again.
\<close>

definition serialize_phones :: "ParsedExcelData \<Rightarrow> PhoneNumber list" where
  "serialize_phones d = map (\<lambda>(phoneNum, phoneData). phoneData\<lparr>number := phoneNum\<rparr>) (phoneNumbers d)"

text \<open>
  One entry of \<^verbatim>\<open>results\<close>: \<open>phones\<close> is \<^verbatim>\<open>data?.phoneNumbers\<close>, absent when
  the file failed.
\<close>

record UploadResult =
  result_fileName :: string
  success :: bool
  phones :: "PhoneNumber list option"

text \<open>
  \<^verbatim>\<open>
  for (const loc of phone.locations) {
    const locExists = existing.locations.some(
      l => l.latitude === loc.latitude && l.longitude === loc.longitude);
    if (!locExists) { existing.locations.push(loc); } }
  \<close>
\<close>

definition add_location :: "LocationData list \<Rightarrow> LocationData \<Rightarrow> LocationData list" where
  "add_location ls loc =
     (if list_ex (\<lambda>l. latitude l = latitude loc \<and> longitude l = longitude loc) ls then ls
      else ls @ [loc])"

text \<open>
  \<^verbatim>\<open>
  existing.callCount += phone.callCount;
  existing.smsCount += phone.smsCount;
  existing.records = [...existing.records, ...phone.records].sort(
    (a, b) => new Date(a.dateTime).getTime() - new Date(b.dateTime).getTime());
  \<close>
  For a record without \<^verbatim>\<open>dateTime\<close> the comparison is NaN and the order the
  runtime produces is implementation-defined; the model sorts such a record with the key
  0. The extractor gives every record a date, so the pipeline sends no such record.
\<close>

definition merge_into :: "PhoneNumber \<Rightarrow> PhoneNumber \<Rightarrow> PhoneNumber" where
  "merge_into existing phone =
     existing\<lparr>callCount := callCount existing + callCount phone,
              smsCount := smsCount existing + smsCount phone,
              records := sort_key time_key (records existing @ records phone),
              locations := foldl add_location (locations existing) (locations phone)\<rparr>"

text \<open>
  \<^verbatim>\<open>allPhoneNumbers.find(p => p.number === phone.number)\<close> and the update of the
  entry found, which is the first with that number; \<^verbatim>\<open>push\<close> otherwise.
\<close>

fun merge_phone :: "PhoneNumber list \<Rightarrow> PhoneNumber \<Rightarrow> PhoneNumber list" where
  "merge_phone [] phone = [phone]"
| "merge_phone (p # ps) phone =
     (if number p = number phone then merge_into p phone # ps else p # merge_phone ps phone)"

definition merge_result :: "PhoneNumber list \<Rightarrow> UploadResult \<Rightarrow> PhoneNumber list" where
  "merge_result allPhoneNumbers result =
     (case phones result of
        None \<Rightarrow> allPhoneNumbers
      | Some ps \<Rightarrow> if success result then foldl merge_phone allPhoneNumbers ps
                  else allPhoneNumbers)"

definition merge_results :: "UploadResult list \<Rightarrow> PhoneNumber list" where
  "merge_results results = foldl merge_result [] results"

text \<open>
  \<^verbatim>\<open>handleUploadComplete\<close>: the component state it writes.
  \<^verbatim>\<open>
  if (allPhoneNumbers.length > 0) {
    setUploadedData(allPhoneNumbers); setShowUpload(false); }
  \<close>
\<close>

record page_state =
  uploadedData :: "PhoneNumber list"
  showUpload :: bool

definition handleUploadComplete :: "page_state \<Rightarrow> UploadResult list \<Rightarrow> page_state" where
  "handleUploadComplete st results =
     (let allPhoneNumbers = merge_results results
      in if allPhoneNumbers \<noteq> [] then st\<lparr>uploadedData := allPhoneNumbers, showUpload := False\<rparr>
         else st)"

text \<open>
  The upload route for files that were read and parsed: one successful result per file,
  with the serialized aggregates.
\<close>

definition upload_result :: "runtime \<Rightarrow> string \<times> workbook \<Rightarrow> UploadResult" where
  "upload_result rt f =
     \<lparr>result_fileName = fst f, success = True,
      phones = Some (serialize_phones (parseExcelFile rt (snd f) (fst f)))\<rparr>"

section \<open>Specification-side vocabulary\<close>

subsection \<open>Sheets and dates\<close>

text \<open>The tests of listing-sheet discovery on one sheet name, and the choice of a list.\<close>

definition sheet_is_appel :: "string \<Rightarrow> bool" where
  "sheet_is_appel name \<longleftrightarrow> js_includes (normalizeString name) ''listing appel''"

definition sheet_is_sms :: "string \<Rightarrow> bool" where
  "sheet_is_sms name \<longleftrightarrow> js_includes (normalizeString name) ''listing sms''"

definition sheet_is_listing :: "string \<Rightarrow> bool" where
  "sheet_is_listing name \<longleftrightarrow> normalizeString name = ''listing''"

definition last_of :: "'a list \<Rightarrow> 'a option" where
  "last_of xs = (case xs of [] \<Rightarrow> None | y # ys \<Rightarrow> Some (last (y # ys)))"

definition first_of :: "'a list \<Rightarrow> 'a option" where
  "first_of xs = (case xs of [] \<Rightarrow> None | y # ys \<Rightarrow> Some y)"


subsection \<open>Aggregates\<close>

text \<open>The entry of a number while the records are folded: the one in the map, or a new one.\<close>

definition entry_of :: "(string \<rightharpoonup> SubscriberInfo) \<Rightarrow> phone_map \<Rightarrow> string \<Rightarrow> PhoneNumber" where
  "entry_of sm pm n = (case map_of pm n of None \<Rightarrow> new_phone sm n | Some p \<Rightarrow> p)"

text \<open>The times the records of a list carry.\<close>

definition times_of :: "CallRecord list \<Rightarrow> date set" where
  "times_of rs = set (List.map_filter dateTime rs)"



text \<open>
  The merge as the specification sees it: the aggregates of the successful results, in
  order; the first aggregate of every number among them; and the fields of an aggregate
  that a merge is not to touch.
\<close>

definition incoming :: "UploadResult list \<Rightarrow> PhoneNumber list" where
  "incoming results =
     concat (map (\<lambda>res. case phones res of None \<Rightarrow> [] | Some ps \<Rightarrow> if success res then ps else [])
               results)"

fun first_by_number :: "PhoneNumber list \<Rightarrow> PhoneNumber list \<Rightarrow> PhoneNumber list" where
  "first_by_number seen [] = []"
| "first_by_number seen (p # ps) =
     (if number p \<in> number ` set seen then first_by_number seen ps
      else p # first_by_number (p # seen) ps)"

definition frame :: "PhoneNumber \<Rightarrow> string \<times> string option \<times> string option \<times> string option \<times> date option \<times> date option" where
  "frame p = (number p, identity p, operator p, phone_imei p, firstActivity p, lastActivity p)"

subsection \<open>Coordinates in a location string\<close>








section \<open>Examples\<close>

text \<open>
  A runtime for the evaluation of examples, with UTC as the local time zone.
  \<open>days_from_civil\<close> counts the days from 1970-01-01 to a date of the proleptic
  Gregorian calendar; \<open>utc_date\<close> is \<^verbatim>\<open>new Date(y, m, d, H, M, S)\<close> there (a year
  from 0 to 99 is taken in the 1900s, and the month index may overflow into the years).
  Of the other operations it has what the examples use: the one ISO string they parse;
  no example reads a date serial or prints a date.
\<close>

definition days_from_civil :: "int \<Rightarrow> int \<Rightarrow> int \<Rightarrow> int" where
  "days_from_civil y m d =
     (let y' = (if m \<le> 2 then y - 1 else y);
          era = y' div 400;
          yoe = y' - era * 400;
          mp = (m + 9) mod 12;
          doy = (153 * mp + 2) div 5 + d - 1;
          doe = yoe * 365 + yoe div 4 - yoe div 100 + doy
      in era * 146097 + doe - 719468)"

definition utc_date :: "int \<Rightarrow> int \<Rightarrow> int \<Rightarrow> int \<Rightarrow> int \<Rightarrow> int \<Rightarrow> date" where
  "utc_date y m d H M S =
     (let yy = (if 0 \<le> y \<and> y \<le> 99 then 1900 + y else y);
          days = days_from_civil (yy + m div 12) (m mod 12 + 1) 1 + d - 1
      in (((days * 24 + H) * 60 + M) * 60 + S) * 1000)"

definition sample_runtime :: runtime where
  "sample_runtime =
     \<lparr> parse_date_code = (\<lambda>n. None),
       make_date = utc_date,
       date_parse = (\<lambda>s. if s = ''2024-03-15T09:00:00.000Z'' then Some 1710493200000 else None),
       date_toString = (\<lambda>d. []),
       date_locale = (\<lambda>d. []),
       clock = (\<lambda>k i. 1700000000000 + int k * 1000 + int i),
       fresh_id = (\<lambda>k i. ''record-'' @ nat_digits i @ ''-'' @ nat_digits k) \<rparr>"

text \<open>Sheet names, headers and two numerals.\<close>

definition sample_sheets :: "string list" where
  "sample_sheets = [''Listing'', ''Listing Appel'', ''Listing SMS'', ''Listing Appel 2'']"




text \<open>
  Records of the number 699111222: a call, an SMS without a date, a record with a called
  number only, an SMS, and a call dated one second before 1970; the aggregate of the
  first four.
\<close>

definition rec_call :: CallRecord where
  "rec_call = \<lparr>id_str = ''record-0'', callerNumber = ''699111222'', calledNumber = ''655333444'',
     imei = [], dateTime = Some 2000, duration = ''00:01:30'', location = None,
     rawLocation = []\<rparr>"

definition rec_undated :: CallRecord where
  "rec_undated = \<lparr>id_str = ''record-1'', callerNumber = ''699111222'', calledNumber = [],
     imei = [], dateTime = None, duration = ''sms'', location = None, rawLocation = []\<rparr>"

definition rec_callee_only :: CallRecord where
  "rec_callee_only = \<lparr>id_str = ''record-2'', callerNumber = [], calledNumber = ''655333444'',
     imei = [], dateTime = Some 500, duration = ''SMS'', location = None, rawLocation = []\<rparr>"

definition rec_sms :: CallRecord where
  "rec_sms = \<lparr>id_str = ''record-3'', callerNumber = ''699111222'', calledNumber = ''655333444'',
     imei = [], dateTime = Some 1000, duration = ''SMS'', location = None, rawLocation = []\<rparr>"


definition sample_records :: "CallRecord list" where
  "sample_records = [rec_call, rec_undated, rec_callee_only, rec_sms]"

definition sample_aggregate :: PhoneNumber where
  "sample_aggregate = \<lparr>number = ''699111222'', identity = None, operator = None,
     phone_imei = None, callCount = 1, smsCount = 2, firstActivity = Some 1000,
     lastActivity = Some 2000, locations = [], records = [rec_undated, rec_sms, rec_call]\<rparr>"

text \<open>
  A listing row of the number 699111222 with a given date, duration and location text,
  the columns inferred from its keys, and the record extracted from it.
\<close>

definition listing_row :: "cell \<Rightarrow> cell \<Rightarrow> string \<Rightarrow> row" where
  "listing_row date dur loc =
     [(''Numero Appelant'', CStr ''699111222''), (''Numero Appele'', CStr ''655333444''),
      (''Date'', date), (''Duree'', dur), (''Localisation'', CStr loc)]"

definition listing_cols :: columns where
  "listing_cols =
     \<lparr>callerNumberCol = Some ''Numero Appelant'', calledNumberCol = Some ''Numero Appele'',
      imeiCol = None, dateCol = Some ''Date'', durationCol = Some ''Duree'',
      locationCol = Some ''Localisation''\<rparr>"

definition bastos_text :: string where
  "bastos_text = ''Bastos (Cell: A1 Long: 11.5 Lat: 3.9 Azimut: 45)''"

definition bastos_near_text :: string where
  "bastos_near_text = ''Bastos (Cell: A1 Long: 11.50001 Lat: 3.9 Azimut: 45)''"

definition bastos :: LocationData where
  "bastos = \<lparr>siteName = ''Bastos'', cellId = ''A1'', longitude = 23 / 2,
     latitude = 39 / 10, azimuth = ''45'', region = None\<rparr>"

definition bastos_near :: LocationData where
  "bastos_near = \<lparr>siteName = ''Bastos'', cellId = ''A1'', longitude = 1150001 / 100000,
     latitude = 39 / 10, azimuth = ''45'', region = None\<rparr>"

definition listing_record ::
  "string \<Rightarrow> date \<Rightarrow> string \<Rightarrow> LocationData option \<Rightarrow> string \<Rightarrow> CallRecord" where
  "listing_record i t dur loc raw =
     \<lparr>id_str = i, callerNumber = ''699111222'', calledNumber = ''655333444'', imei = [],
      dateTime = Some t, duration = dur, location = loc, rawLocation = raw\<rparr>"

text \<open>
  Workbooks: one call; one SMS with an empty duration; one call whose date is not a
  date; one call at a location \<open>0.00001\<close> degrees east of the first.
\<close>

definition workbook_call :: workbook where
  "workbook_call =
     [(''Listing Appel'',
       [listing_row (CStr ''15/03/2024 09:00:00'') (CStr ''00:01:30'') bastos_text])]"



definition workbook_near :: workbook where
  "workbook_near =
     [(''Listing Appel'',
       [listing_row (CStr ''15/03/2024 09:00:00'') (CStr ''00:01:30'') bastos_near_text])]"

text \<open>
  Two aggregates of one number as two files send them, the second with a record before
  the activity window of the first, and a successful result carrying aggregates.
\<close>

definition phone_first :: PhoneNumber where
  "phone_first = \<lparr>number = ''699111222'', identity = Some ''Abena'', operator = None,
     phone_imei = None, callCount = 1, smsCount = 0, firstActivity = Some 2000,
     lastActivity = Some 2000, locations = [], records = [rec_call]\<rparr>"

definition phone_later :: PhoneNumber where
  "phone_later = \<lparr>number = ''699111222'', identity = None, operator = None,
     phone_imei = None, callCount = 0, smsCount = 1, firstActivity = Some 1000,
     lastActivity = Some 1000, locations = [], records = [rec_sms]\<rparr>"

definition result_of :: "string \<Rightarrow> PhoneNumber list \<Rightarrow> UploadResult" where
  "result_of name ps = \<lparr>result_fileName = name, success = True, phones = Some ps\<rparr>"

section \<open>Properties\<close>

subsection \<open>Phone-number normalization\<close>

lemma is_digit_not_space: "is_digit c \<Longrightarrow> \<not> is_space c"
  by (auto simp: is_digit_def is_space_def)

lemma trim_no_space:
  assumes "\<forall>c \<in> set s. \<not> is_space c"
  shows "trim s = s"
proof (cases s)
  case Nil
  then show ?thesis by (simp add: trim_def)
next
  case (Cons a t)
  with assms have a: "\<not> is_space a" by simp
  have "s \<noteq> []" using Cons by simp
  then have "\<not> is_space (last s)" using assms last_in_set by blast
  then have "dropWhile is_space (rev s) = rev s"
    using \<open>s \<noteq> []\<close> by (cases "rev s") (auto simp: last_rev hd_rev)
  moreover have "dropWhile is_space s = s" using a Cons by simp
  ultimately show ?thesis by (simp add: trim_def)
qed

lemma normalizePhoneNumber_digits:
  "\<forall>c \<in> set (normalizePhoneNumber rt phone). is_digit c"
  by (simp add: normalizePhoneNumber_def Let_def)

lemma normalizePhoneNumber_of_digits:
  assumes "\<forall>c \<in> set y. is_digit c"
  shows "normalizePhoneNumber rt (CStr y) = (if startsWith y ''237'' then drop 3 y else y)"
proof (cases "y = []")
  case True
  then show ?thesis by (simp add: normalizePhoneNumber_def startsWith_def)
next
  case False
  have t: "trim y = y"
    using assms by (intro trim_no_space) (auto dest: is_digit_not_space)
  have d: "filter is_digit (drop 3 y) = drop 3 y"
    using assms by (auto simp: filter_id_conv dest: in_set_dropD)
  have f: "filter is_digit y = y"
    using assms by (simp add: filter_id_conv)
  show ?thesis using False t d f by (simp add: normalizePhoneNumber_def Let_def)
qed

text \<open>
  Claim C4, as the code has it: a second normalization leaves a normalized number
  unchanged unless that number itself starts with \<open>237\<close>, in which case those three
  digits are stripped once more. In particular normalization is idempotent on every
  input whose normalized form does not start with \<open>237\<close>.
\<close>

theorem normalizePhoneNumber_twice:
  "normalizePhoneNumber rt (CStr (normalizePhoneNumber rt (CStr x))) =
     (if startsWith (normalizePhoneNumber rt (CStr x)) ''237''
      then drop 3 (normalizePhoneNumber rt (CStr x))
      else normalizePhoneNumber rt (CStr x))"
  by (rule normalizePhoneNumber_of_digits) (rule normalizePhoneNumber_digits)

theorem normalizePhoneNumber_twice_witness:
  "normalizePhoneNumber sample_runtime
     (CStr (normalizePhoneNumber sample_runtime (CStr ''237 699-123-456''))) = ''699123456''
   \<and> normalizePhoneNumber sample_runtime (CStr ''237 699-123-456'') = ''699123456''"
  using normalizePhoneNumber_twice [of sample_runtime "''237 699-123-456''"]
  by (simp add: normalizePhoneNumber_def trim_def startsWith_def is_digit_def is_space_def)

text \<open>
  Idempotence as claim C4 states it fails: \<open>237237699\<close> normalizes to \<open>237699\<close>, and
  that to \<open>699\<close>.
\<close>

theorem normalizePhoneNumber_not_idempotent:
  "normalizePhoneNumber sample_runtime
     (CStr (normalizePhoneNumber sample_runtime (CStr ''237237699'')))
   \<noteq> normalizePhoneNumber sample_runtime (CStr ''237237699'')"
  by (simp add: normalizePhoneNumber_def trim_def startsWith_def is_digit_def is_space_def)

subsection \<open>Listing-sheet discovery\<close>

lemma last_of_snoc: "last_of (xs @ [x]) = Some x"
  by (cases xs) (simp_all add: last_of_def)

lemma findListingSheets_snoc:
  "findListingSheets (xs @ [x]) = findListingSheets_step (findListingSheets xs) x"
  by (simp add: findListingSheets_def)

lemma findListingSheets_step_calls:
  "calls (findListingSheets_step st x) =
     (if sheet_is_appel x then Some x
      else if sheet_is_listing x \<and> falsy_name (calls st) then Some x else calls st)"
  by (auto simp add: findListingSheets_step_def Let_def sheet_is_appel_def
      sheet_is_listing_def startsWith_def)

lemma findListingSheets_step_sms:
  "sms (findListingSheets_step st x) = (if sheet_is_sms x then Some x else sms st)"
  by (simp add: findListingSheets_step_def Let_def sheet_is_sms_def)

lemma sheet_is_listing_nonempty: "sheet_is_listing n \<Longrightarrow> n \<noteq> []"
  by (auto simp: sheet_is_listing_def normalizeString_def toLowerCase_def)

lemma sheet_is_appel_nonempty: "sheet_is_appel n \<Longrightarrow> n \<noteq> []"
  by (auto simp: sheet_is_appel_def normalizeString_def toLowerCase_def startsWith_def)

lemma findListingSheets_calls:
  "calls (findListingSheets xs) =
     (case last_of (filter sheet_is_appel xs) of
        Some a \<Rightarrow> Some a
      | None \<Rightarrow> first_of (filter sheet_is_listing xs))"
proof (induction xs rule: rev_induct)
  case Nil
  then show ?case by (simp add: findListingSheets_def last_of_def first_of_def)
next
  case (snoc x xs)
  note st = findListingSheets_snoc [of xs x]
  show ?case
  proof (cases "sheet_is_appel x")
    case True
    then show ?thesis by (simp add: st findListingSheets_step_calls last_of_snoc)
  next
    case nx: False
    show ?thesis
    proof (cases "filter sheet_is_appel xs")
      case no_appel: Nil
      show ?thesis
      proof (cases "filter sheet_is_listing xs")
        case Nil
        with no_appel nx snoc show ?thesis
          by (simp add: st findListingSheets_step_calls last_of_def first_of_def)
      next
        case (Cons l ls)
        then have "l \<in> set (filter sheet_is_listing xs)" by simp
        then have "l \<noteq> []" using sheet_is_listing_nonempty by simp
        with Cons no_appel nx snoc show ?thesis
          by (simp add: st findListingSheets_step_calls last_of_def first_of_def)
      qed
    next
      case (Cons a as)
      then have "last (a # as) \<in> set (filter sheet_is_appel xs)"
        by (metis last_in_set list.distinct(1))
      then have "last (a # as) \<noteq> []" using sheet_is_appel_nonempty by simp
      with Cons nx snoc show ?thesis
        by (simp add: st findListingSheets_step_calls last_of_def first_of_def)
    qed
  qed
qed

lemma findListingSheets_sms:
  "sms (findListingSheets xs) = last_of (filter sheet_is_sms xs)"
proof (induction xs rule: rev_induct)
  case Nil
  then show ?case by (simp add: findListingSheets_def last_of_def)
next
  case (snoc x xs)
  then show ?case
    by (simp add: findListingSheets_snoc findListingSheets_step_sms last_of_snoc)
qed

text \<open>
  Claim C3, as the code has it: the calls sheet is the LAST sheet whose normalized name
  contains \<open>listing appel\<close>; when no sheet name contains it, the calls sheet is the
  first sheet whose normalized name is exactly \<open>listing\<close> (the fallback is taken only
  while no calls sheet is set, and a later \<open>listing appel\<close> sheet replaces it). The SMS
  sheet is the LAST sheet whose normalized name contains \<open>listing sms\<close>.
\<close>

theorem findListingSheets_last_match:
  "calls (findListingSheets xs) =
     (case last_of (filter sheet_is_appel xs) of
        Some a \<Rightarrow> Some a
      | None \<Rightarrow> first_of (filter sheet_is_listing xs))
   \<and> sms (findListingSheets xs) = last_of (filter sheet_is_sms xs)"
  by (simp add: findListingSheets_calls findListingSheets_sms)

theorem findListingSheets_last_match_witness:
  "calls (findListingSheets sample_sheets) = Some ''Listing Appel 2''
   \<and> sms (findListingSheets sample_sheets) = Some ''Listing SMS''"
proof -
  have "\<not> sheet_is_appel ''Listing''" "\<not> sheet_is_sms ''Listing''"
    "sheet_is_appel ''Listing Appel''" "\<not> sheet_is_sms ''Listing Appel''"
    "\<not> sheet_is_appel ''Listing SMS''" "sheet_is_sms ''Listing SMS''"
    "sheet_is_appel ''Listing Appel 2''" "\<not> sheet_is_sms ''Listing Appel 2''"
    by code_simp+
  then show ?thesis
    using findListingSheets_last_match [of sample_sheets]
    by (simp add: sample_sheets_def last_of_def)
qed

text \<open>
  The first matching sheet, as claim C3 states it, is not the one selected when two
  sheet names contain \<open>listing appel\<close>.
\<close>

theorem findListingSheets_not_first:
  "calls (findListingSheets [''Listing Appel'', ''Listing Appel 2''])
   \<noteq> first_of (filter sheet_is_appel [''Listing Appel'', ''Listing Appel 2''])"
proof -
  have "sheet_is_appel ''Listing Appel''" "sheet_is_appel ''Listing Appel 2''"
    by code_simp+
  then show ?thesis
    by (simp add: findListingSheets_calls last_of_def first_of_def)
qed

subsection \<open>Column inference\<close>






subsection \<open>Aggregation\<close>

lemma aggregate_record_skip:
  "length (callerNumber r) < 6 \<Longrightarrow> aggregate_record sm pm r = pm"
  by (simp add: aggregate_record_def Let_def)

lemma aggregate_record_fold:
  "6 \<le> length (callerNumber r) \<Longrightarrow>
   aggregate_record sm pm r =
     AList.update (callerNumber r) (fold_record (entry_of sm pm (callerNumber r)) r) pm"
  by (auto simp add: aggregate_record_def Let_def entry_of_def)

lemma map_of_aggregate_record:
  "map_of (aggregate_record sm pm r) n =
     (if callerNumber r = n \<and> 6 \<le> length n then Some (fold_record (entry_of sm pm n) r)
      else map_of pm n)"
proof (cases "6 \<le> length (callerNumber r)")
  case True
  then show ?thesis by (simp add: aggregate_record_fold update_conv')
next
  case False
  then show ?thesis by (auto simp add: aggregate_record_skip)
qed

lemma entry_of_aggregate_record:
  "entry_of sm (aggregate_record sm pm r) n =
     (if callerNumber r = n \<and> 6 \<le> length n then fold_record (entry_of sm pm n) r
      else entry_of sm pm n)"
  by (simp add: entry_of_def map_of_aggregate_record)

lemma distinct_aggregate_record:
  "distinct (map fst pm) \<Longrightarrow> distinct (map fst (aggregate_record sm pm r))"
  by (cases "6 \<le> length (callerNumber r)")
     (simp_all add: aggregate_record_fold aggregate_record_skip distinct_update)

lemma distinct_aggregate_fold:
  "distinct (map fst pm) \<Longrightarrow> distinct (map fst (foldl (aggregate_record sm) pm recs))"
  by (induction recs arbitrary: pm) (simp_all add: distinct_aggregate_record)

lemma map_of_aggregate_fold:
  "map_of (foldl (aggregate_record sm) pm recs) n =
     (if filter (\<lambda>r. callerNumber r = n \<and> 6 \<le> length n) recs = [] then map_of pm n
      else Some (foldl fold_record (entry_of sm pm n)
                   (filter (\<lambda>r. callerNumber r = n \<and> 6 \<le> length n) recs)))"
proof (induction recs arbitrary: pm)
  case Nil
  show ?case by simp
next
  case (Cons r recs)
  show ?case
    by (simp add: Cons.IH map_of_aggregate_record entry_of_aggregate_record)
qed

lemma aggregate_fold_filter:
  "foldl (aggregate_record sm) pm (filter (\<lambda>r. 6 \<le> length (callerNumber r)) recs) =
   foldl (aggregate_record sm) pm recs"
  by (induction recs arbitrary: pm) (simp_all add: aggregate_record_skip)

lemma update_dates_simps [simp]:
  "number (update_dates r p) = number p" "identity (update_dates r p) = identity p"
  "callCount (update_dates r p) = callCount p" "smsCount (update_dates r p) = smsCount p"
  "records (update_dates r p) = records p" "locations (update_dates r p) = locations p"
  by (simp_all add: update_dates_def Let_def split: option.splits)

lemma update_locations_simps [simp]:
  "number (update_locations r p) = number p" "identity (update_locations r p) = identity p"
  "callCount (update_locations r p) = callCount p" "smsCount (update_locations r p) = smsCount p"
  "records (update_locations r p) = records p"
  "firstActivity (update_locations r p) = firstActivity p"
  "lastActivity (update_locations r p) = lastActivity p"
  by (simp_all add: update_locations_def split: option.splits)

lemma update_counts_simps [simp]:
  "number (update_counts r p) = number p" "identity (update_counts r p) = identity p"
  "records (update_counts r p) = records p" "locations (update_counts r p) = locations p"
  "firstActivity (update_counts r p) = firstActivity p"
  "lastActivity (update_counts r p) = lastActivity p"
  "smsCount (update_counts r p) = (if is_sms r then smsCount p + 1 else smsCount p)"
  "callCount (update_counts r p) = (if is_sms r then callCount p else callCount p + 1)"
  by (simp_all add: update_counts_def)

lemma fold_record_simps:
  "number (fold_record p r) = number p"
  "identity (fold_record p r) = identity p"
  "records (fold_record p r) = records p @ [r]"
  "smsCount (fold_record p r) = (if is_sms r then smsCount p + 1 else smsCount p)"
  "callCount (fold_record p r) = (if is_sms r then callCount p else callCount p + 1)"
  by (simp_all add: fold_record_def Let_def)

lemma foldl_fold_record:
  "number (foldl fold_record p rs) = number p
   \<and> records (foldl fold_record p rs) = records p @ rs
   \<and> smsCount (foldl fold_record p rs) = smsCount p + length (filter is_sms rs)
   \<and> callCount (foldl fold_record p rs) = callCount p + length (filter (\<lambda>r. \<not> is_sms r) rs)"
  by (induction rs arbitrary: p) (simp_all add: fold_record_simps)

lemma aggregate_entry:
  assumes "(n, p) \<in> set (aggregateByPhoneNumber recs subs)"
  shows "6 \<le> length n"
    and "filter (\<lambda>r. callerNumber r = n) recs \<noteq> []"
    and "p = sort_records (foldl fold_record (new_phone (subscriber_map subs) n)
                (filter (\<lambda>r. callerNumber r = n) recs))"
proof -
  let ?sm = "subscriber_map subs"
  let ?pm = "foldl (aggregate_record ?sm) [] recs"
  let ?rs = "filter (\<lambda>r. callerNumber r = n \<and> 6 \<le> length n) recs"
  from assms obtain p0 where p0: "(n, p0) \<in> set ?pm" and p: "p = sort_records p0"
    by (auto simp: aggregateByPhoneNumber_def)
  have "distinct (map fst ?pm)" by (rule distinct_aggregate_fold) simp
  with p0 have m: "map_of ?pm n = Some p0" by simp
  have ne: "?rs \<noteq> []" using m by (auto simp: map_of_aggregate_fold split: if_splits)
  then obtain r where "r \<in> set ?rs" by (cases ?rs) auto
  then show len: "6 \<le> length n" by simp
  then have eq: "?rs = filter (\<lambda>r. callerNumber r = n) recs" by simp
  with ne show "filter (\<lambda>r. callerNumber r = n) recs \<noteq> []" by simp
  from m ne have "p0 = foldl fold_record (entry_of ?sm [] n) ?rs"
    by (simp add: map_of_aggregate_fold)
  then show "p = sort_records (foldl fold_record (new_phone ?sm n)
                (filter (\<lambda>r. callerNumber r = n) recs))"
    using p eq by (simp add: entry_of_def)
qed

lemma aggregate_keys:
  "fst ` set (aggregateByPhoneNumber recs subs) =
     {callerNumber r | r. r \<in> set recs \<and> 6 \<le> length (callerNumber r)}"
proof -
  let ?sm = "subscriber_map subs"
  let ?pm = "foldl (aggregate_record ?sm) [] recs"
  have "fst ` set (aggregateByPhoneNumber recs subs) = fst ` set ?pm"
    by (force simp: aggregateByPhoneNumber_def)
  also have "\<dots> = dom (map_of ?pm)" by (simp add: dom_map_of_conv_image_fst)
  also have "\<dots> = {callerNumber r | r. r \<in> set recs \<and> 6 \<le> length (callerNumber r)}"
    by (auto simp: dom_def map_of_aggregate_fold filter_empty_conv split: if_splits)
  finally show ?thesis .
qed


lemma sample_is_sms:
  "\<not> is_sms rec_call" "is_sms rec_undated" "is_sms rec_sms"
  by (simp_all add: is_sms_def rec_call_def rec_undated_def rec_sms_def toLowerCase_def
      lower_char_def upper_chars_def lower_chars_def)

lemma sample_aggregation:
  "aggregateByPhoneNumber sample_records [] = [(''699111222'', sample_aggregate)]"
proof -
  have c: "callerNumber rec_call = ''699111222''" "callerNumber rec_undated = ''699111222''"
    "callerNumber rec_callee_only = []" "callerNumber rec_sms = ''699111222''"
    by (simp_all add: rec_call_def rec_undated_def rec_callee_only_def rec_sms_def)
  have d: "dateTime rec_call = Some 2000" "dateTime rec_undated = None"
    "dateTime rec_sms = Some 1000"
    "location rec_call = None" "location rec_undated = None" "location rec_sms = None"
    by (simp_all add: rec_call_def rec_undated_def rec_sms_def)
  show ?thesis
    by (simp add: aggregateByPhoneNumber_def sample_records_def aggregate_record_def c d
        sample_is_sms fold_record_def update_counts_def update_dates_def update_locations_def
        new_phone_def subscriber_map_def sort_records_def time_key_def sample_aggregate_def
        Let_def)
qed


lemma aggregate_filter:
  "aggregateByPhoneNumber (filter (\<lambda>r. 6 \<le> length (callerNumber r)) recs) subs =
   aggregateByPhoneNumber recs subs"
  by (simp add: aggregateByPhoneNumber_def aggregate_fold_filter)

lemma sort_records_simps [simp]:
  "number (sort_records p) = number p" "identity (sort_records p) = identity p"
  "callCount (sort_records p) = callCount p" "smsCount (sort_records p) = smsCount p"
  "firstActivity (sort_records p) = firstActivity p"
  "lastActivity (sort_records p) = lastActivity p"
  "locations (sort_records p) = locations p"
  "records (sort_records p) = sort_key time_key (records p)"
  by (simp_all add: sort_records_def)

lemma new_phone_simps [simp]:
  "number (new_phone sm n) = n" "records (new_phone sm n) = []"
  "callCount (new_phone sm n) = 0" "smsCount (new_phone sm n) = 0"
  "firstActivity (new_phone sm n) = None" "lastActivity (new_phone sm n) = None"
  "locations (new_phone sm n) = []"
  by (simp_all add: new_phone_def)

lemma aggregate_entry_records:
  assumes "(n, p) \<in> set (aggregateByPhoneNumber recs subs)"
  shows "records p = sort_key time_key (filter (\<lambda>r. callerNumber r = n) recs)"
    and "number p = n"
    and "smsCount p = length (filter is_sms (filter (\<lambda>r. callerNumber r = n) recs))"
    and "callCount p = length (filter (\<lambda>r. \<not> is_sms r) (filter (\<lambda>r. callerNumber r = n) recs))"
  using aggregate_entry(3) [OF assms] by (simp_all add: foldl_fold_record)

lemma with_col_cases:
  "with_col col d f = d \<or> (\<exists>c. col = Some c \<and> c \<noteq> [] \<and> with_col col d f = f c)"
  by (cases col) (auto simp: with_col_def)

lemma parse_row_caller_digits:
  assumes "parse_row rt cols k i r = Some rec"
  shows "list_all is_digit (callerNumber rec)"
proof -
  let ?c = "with_col (callerNumberCol cols) [] (\<lambda>c. normalizePhoneNumber rt (row_get r c))"
  have "callerNumber rec = ?c"
    using assms by (auto simp: parse_row_def Let_def split: if_splits)
  moreover have "list_all is_digit ?c"
    using with_col_cases [of "callerNumberCol cols" "[]" "\<lambda>c. normalizePhoneNumber rt (row_get r c)"]
      normalizePhoneNumber_digits
    by (auto simp: list_all_iff)
  ultimately show ?thesis by simp
qed

lemma set_map_filter_iff:
  "y \<in> set (List.map_filter f xs) \<longleftrightarrow> (\<exists>x \<in> set xs. f x = Some y)"
  by (induction xs) (auto split: option.splits)

lemma parseListingSheet_row:
  assumes "rec \<in> set (parseListingSheet rt k data)"
  shows "\<exists>i r. i < length data \<and> r = data ! i \<and>
           parse_row rt (identifyColumns (map fst (hd data))) k i r = Some rec"
proof (cases data)
  case Nil
  with assms show ?thesis by (simp add: parseListingSheet_def)
next
  case (Cons first rest)
  with assms obtain i r where "(i, r) \<in> set (zip [0..<length data] data)"
    and p: "parse_row rt (identifyColumns (map fst first)) k i r = Some rec"
    by (auto simp: parseListingSheet_def Let_def set_map_filter_iff)
  then have "i < length data \<and> r = data ! i"
    by (auto simp: set_zip)
  with p Cons show ?thesis by auto
qed

lemma mark_sms_caller [simp]: "callerNumber (mark_sms r) = callerNumber r"
  by (simp add: mark_sms_def)

lemma parse_records_caller_digits:
  assumes "rec \<in> set (parse_records rt wb)"
  shows "list_all is_digit (callerNumber rec)"
proof -
  from assms obtain k sh r where "r \<in> set (parseListingSheet rt k sh)"
    and "callerNumber rec = callerNumber r"
    by (auto simp: parse_records_def Let_def split: if_splits)
  then show ?thesis
    using parseListingSheet_row parse_row_caller_digits by metis
qed

text \<open>
  Claim C5: records whose caller number is shorter than 6 characters (empty included)
  do not take part in aggregation, whatever their called number; the keys of the result
  are exactly the caller numbers of the other records; every record of an aggregate is
  an input record whose caller number is the key of the aggregate, is not empty and has
  at least 6 characters. The caller number of an extracted record consists of digits, so
  that these are 6 digits.
\<close>

theorem aggregate_caller_only:
  "aggregateByPhoneNumber (filter (\<lambda>r. 6 \<le> length (callerNumber r)) recs) subs =
     aggregateByPhoneNumber recs subs
   \<and> fst ` set (aggregateByPhoneNumber recs subs) =
       {callerNumber r | r. r \<in> set recs \<and> 6 \<le> length (callerNumber r)}
   \<and> (\<forall>(n, p) \<in> set (aggregateByPhoneNumber recs subs).
         number p = n \<and>
         (\<forall>r \<in> set (records p).
            r \<in> set recs \<and> callerNumber r = n \<and> callerNumber r \<noteq> [] \<and>
            6 \<le> length (callerNumber r)))
   \<and> (\<forall>r \<in> set (parse_records rt wb). list_all is_digit (callerNumber r))"
proof (intro conjI)
  show "\<forall>(n, p) \<in> set (aggregateByPhoneNumber recs subs).
         number p = n \<and>
         (\<forall>r \<in> set (records p).
            r \<in> set recs \<and> callerNumber r = n \<and> callerNumber r \<noteq> [] \<and>
            6 \<le> length (callerNumber r))"
  proof (clarify, intro conjI ballI)
    fix n p r
    assume np: "(n, p) \<in> set (aggregateByPhoneNumber recs subs)"
    show "number p = n" by (rule aggregate_entry_records(2) [OF np])
    assume "r \<in> set (records p)"
    then have r: "r \<in> set recs \<and> callerNumber r = n"
      by (simp add: aggregate_entry_records(1) [OF np])
    have len: "6 \<le> length n" by (rule aggregate_entry(1) [OF np])
    from r show "r \<in> set recs" by simp
    from r show "callerNumber r = n" by simp
    from r len show "callerNumber r \<noteq> []" by auto
    from r len show "6 \<le> length (callerNumber r)" by simp
  qed
qed (rule aggregate_filter, rule aggregate_keys, blast intro: parse_records_caller_digits)

theorem aggregate_caller_only_witness:
  "aggregateByPhoneNumber sample_records [] = [(''699111222'', sample_aggregate)]
   \<and> fst ` set (aggregateByPhoneNumber sample_records []) = {''699111222''}
   \<and> callerNumber rec_callee_only = [] \<and> calledNumber rec_callee_only = ''655333444''
   \<and> set (records sample_aggregate) = {rec_call, rec_undated, rec_sms}"
  using aggregate_caller_only [of sample_records "[]"]
  by (auto simp add: sample_aggregation sample_aggregate_def rec_callee_only_def)



subsection \<open>Merging the results of several files\<close>

lemma merge_into_fields:
  "callCount (merge_into existing phone) = callCount existing + callCount phone"
  "smsCount (merge_into existing phone) = smsCount existing + smsCount phone"
  "records (merge_into existing phone) = sort_key time_key (records existing @ records phone)"
  "sorted (map time_key (records (merge_into existing phone)))"
  by (simp_all add: merge_into_def)

lemma frame_merge_into [simp]: "frame (merge_into existing phone) = frame existing"
  by (simp add: frame_def merge_into_def)

lemma number_merge_into [simp]: "number (merge_into existing phone) = number existing"
  by (simp add: merge_into_def)

lemma merge_phone_frame:
  "map frame (merge_phone all phone) =
     (if number phone \<in> number ` set all then map frame all else map frame all @ [frame phone])"
  by (induction all) auto

lemma merge_phone_numbers:
  "number ` set (merge_phone all phone) = insert (number phone) (number ` set all)"
  by (induction all) auto

lemma foldl_merge_phone_frame:
  "map frame (foldl merge_phone all ps) = map frame all @ map frame (first_by_number all ps)"
proof (induction ps arbitrary: all)
  case Nil
  show ?case by simp
next
  case (Cons p ps)
  have seen: "\<And>qs. number ` set (merge_phone all p) = number ` set (p # all)"
    by (simp add: merge_phone_numbers)
  have fb: "\<And>a b. number ` set a = number ` set b \<Longrightarrow> first_by_number a ps = first_by_number b ps"
  proof -
    fix a b :: "PhoneNumber list"
    assume "number ` set a = number ` set b"
    then show "first_by_number a ps = first_by_number b ps"
    proof (induction ps arbitrary: a b)
      case Nil
      show ?case by simp
    next
      case (Cons q qs)
      have "number ` set (q # a) = number ` set (q # b)" using Cons.prems by simp
      then have "first_by_number (q # a) qs = first_by_number (q # b) qs" by (rule Cons.IH)
      moreover have "first_by_number a qs = first_by_number b qs" using Cons.prems by (rule Cons.IH)
      ultimately show ?case using Cons.prems by simp
    qed
  qed
  show ?case
  proof (cases "number p \<in> number ` set all")
    case True
    then have "number ` set (merge_phone all p) = number ` set all"
      by (auto simp: merge_phone_numbers)
    then have "first_by_number (merge_phone all p) ps = first_by_number all ps" by (rule fb)
    with True show ?thesis by (simp add: Cons.IH merge_phone_frame)
  next
    case False
    have "first_by_number (merge_phone all p) ps = first_by_number (p # all) ps"
      by (rule fb) (simp add: merge_phone_numbers)
    with False show ?thesis by (simp add: Cons.IH merge_phone_frame)
  qed
qed

lemma merge_results_incoming:
  "foldl merge_result all results = foldl merge_phone all (incoming results)"
  by (induction results arbitrary: all)
     (simp_all add: incoming_def merge_result_def split: option.splits)

subsection \<open>Evaluation of the example workbooks\<close>

lemma identifyColumns_listing_row:
  "identifyColumns (map fst (listing_row date dur loc)) = listing_cols"
proof -
  have "identifyColumns [''Numero Appelant'', ''Numero Appele'', ''Date'', ''Duree'', ''Localisation'']
        = listing_cols"
    by code_simp
  then show ?thesis by (simp add: listing_row_def)
qed

lemma normalize_sample_numbers:
  "normalizePhoneNumber rt (CStr ''699111222'') = ''699111222''"
  "normalizePhoneNumber rt (CStr ''655333444'') = ''655333444''"
  by (simp_all add: normalizePhoneNumber_def trim_def startsWith_def is_digit_def is_space_def)

lemma parse_listing_row:
  "parse_row rt listing_cols k i (listing_row date dur loc) =
     Some (listing_record (fresh_id rt k i)
       (case parseExcelDate rt date of None \<Rightarrow> clock rt k i | Some d \<Rightarrow> d)
       (cell_text rt dur) (parseLocationString (cell_text rt (CStr loc)))
       (cell_text rt (CStr loc)))"
  by (simp add: parse_row_def listing_cols_def with_col_def row_get_def listing_row_def
      normalize_sample_numbers listing_record_def Let_def)

lemma parseListingSheet_listing_row:
  "parseListingSheet rt k [listing_row date dur loc] =
     [listing_record (fresh_id rt k 0)
       (case parseExcelDate rt date of None \<Rightarrow> clock rt k 0 | Some d \<Rightarrow> d)
       (cell_text rt dur) (parseLocationString (cell_text rt (CStr loc)))
       (cell_text rt (CStr loc))]"
  by (simp add: parseListingSheet_def identifyColumns_listing_row parse_listing_row)

lemma parse_records_calls_sheet:
  "parse_records rt [(''Listing Appel'', sh)] = parseListingSheet rt 0 sh"
proof -
  have "findListingSheets [''Listing Appel''] = \<lparr>calls = Some ''Listing Appel'', sms = None\<rparr>"
    by code_simp
  then show ?thesis by (simp add: parse_records_def sheet_of_def)
qed

lemma parse_records_sms_sheet:
  "parse_records rt [(''Listing SMS'', sh)] = map mark_sms (parseListingSheet rt 1 sh)"
proof -
  have "findListingSheets [''Listing SMS''] = \<lparr>calls = None, sms = Some ''Listing SMS''\<rparr>"
    by code_simp
  then show ?thesis by (simp add: parse_records_def sheet_of_def)
qed

lemma cell_text_samples:
  "cell_text rt (CStr bastos_text) = bastos_text"
  "cell_text rt (CStr bastos_near_text) = bastos_near_text"
  "cell_text rt (CStr ''00:01:30'') = ''00:01:30''"
  "cell_text rt (CStr []) = []"
  by (simp_all add: cell_text_def trim_def is_space_def bastos_text_def bastos_near_text_def)

lemma parseLocationString_bastos: "parseLocationString bastos_text = Some bastos"
  unfolding bastos_text_def bastos_def by code_simp

lemma parseLocationString_bastos_near: "parseLocationString bastos_near_text = Some bastos_near"
  unfolding bastos_near_text_def bastos_near_def by code_simp

lemma parseExcelDate_samples:
  "parseExcelDate sample_runtime (CStr ''15/03/2024 09:00:00'') = Some 1710493200000"
  "parseExcelDate sample_runtime (CStr ''n/a'') = None"
  by code_simp+

subsection \<open>First and last activity\<close>







lemma times_of_sort [simp]: "times_of (sort_key f rs) = times_of rs"
  by (auto simp: times_of_def set_map_filter_iff)



subsection \<open>The example workbooks, parsed\<close>

lemma is_sms_samples:
  "is_sms (listing_record i t ''SMS'' l raw)"
  "\<not> is_sms (listing_record i t ''00:01:30'' l raw)"
  by (simp_all add: is_sms_def listing_record_def toLowerCase_def lower_char_def
      upper_chars_def lower_chars_def)

lemma aggregate_listing_record:
  "aggregateByPhoneNumber [listing_record i t dur (Some l) raw] [] =
     [(''699111222'',
       \<lparr>number = ''699111222'', identity = None, operator = None, phone_imei = None,
        callCount = (if is_sms (listing_record i t dur (Some l) raw) then 0 else 1),
        smsCount = (if is_sms (listing_record i t dur (Some l) raw) then 1 else 0),
        firstActivity = Some t, lastActivity = Some t, locations = [l],
        records = [listing_record i t dur (Some l) raw]\<rparr>)]"
proof -
  have c: "callerNumber (listing_record i t dur (Some l) raw) = ''699111222''"
    "dateTime (listing_record i t dur (Some l) raw) = Some t"
    "location (listing_record i t dur (Some l) raw) = Some l"
    by (simp_all add: listing_record_def)
  show ?thesis
    by (simp add: aggregateByPhoneNumber_def aggregate_record_def c fold_record_def
        update_counts_def update_dates_def update_locations_def new_phone_def
        subscriber_map_def sort_records_def Let_def)
qed

lemma phoneNumbers_calls_sheet:
  "phoneNumbers (parseExcelFile rt [(''Listing Appel'', sh)] name) =
     aggregateByPhoneNumber (parseListingSheet rt 0 sh) []"
proof -
  have "findSubscribersSheet [''Listing Appel''] = None" by code_simp
  then show ?thesis by (simp add: parseExcelFile_def parse_records_calls_sheet Let_def)
qed

lemma phoneNumbers_sms_sheet:
  "phoneNumbers (parseExcelFile rt [(''Listing SMS'', sh)] name) =
     aggregateByPhoneNumber (map mark_sms (parseListingSheet rt 1 sh)) []"
proof -
  have "findSubscribersSheet [''Listing SMS''] = None" by code_simp
  then show ?thesis by (simp add: parseExcelFile_def parse_records_sms_sheet Let_def)
qed

lemma sample_ids:
  "fresh_id sample_runtime 0 0 = ''record-0-0''" "fresh_id sample_runtime (Suc 0) 0 = ''record-0-1''"
  "clock sample_runtime 0 0 = 1700000000000"
proof -
  have d: "nat_digits 0 = ''0''" "nat_digits (Suc 0) = ''1''"
    by (simp_all add: nat_digits.simps)
  show "fresh_id sample_runtime 0 0 = ''record-0-0''"
    "fresh_id sample_runtime (Suc 0) 0 = ''record-0-1''"
    "clock sample_runtime 0 0 = 1700000000000"
    by (simp_all add: sample_runtime_def d)
qed

lemma parse_workbook_call:
  "parse_records sample_runtime workbook_call =
     [listing_record ''record-0-0'' 1710493200000 ''00:01:30'' (Some bastos) bastos_text]"
  by (simp add: workbook_call_def parse_records_calls_sheet parseListingSheet_listing_row
      parseExcelDate_samples cell_text_samples parseLocationString_bastos sample_ids)

lemma parse_workbook_near:
  "parse_records sample_runtime workbook_near =
     [listing_record ''record-0-0'' 1710493200000 ''00:01:30'' (Some bastos_near)
        bastos_near_text]"
  by (simp add: workbook_near_def parse_records_calls_sheet parseListingSheet_listing_row
      parseExcelDate_samples cell_text_samples parseLocationString_bastos_near sample_ids)



lemma phones_of_parse:
  "phoneNumbers (parseExcelFile rt [(''Listing Appel'', sh)] name) =
     aggregateByPhoneNumber (parse_records rt [(''Listing Appel'', sh)]) []"
  "phoneNumbers (parseExcelFile rt [(''Listing SMS'', sh)] name) =
     aggregateByPhoneNumber (parse_records rt [(''Listing SMS'', sh)]) []"
  by (simp_all add: phoneNumbers_calls_sheet phoneNumbers_sms_sheet parse_records_calls_sheet
      parse_records_sms_sheet)

subsection \<open>Dates that do not parse\<close>

lemma mark_sms_dateTime [simp]: "dateTime (mark_sms r) = dateTime r"
  by (simp add: mark_sms_def)







subsection \<open>Order of the records\<close>


subsection \<open>The SMS marker\<close>






subsection \<open>What a merge leaves alone\<close>

text \<open>
  Claim C10: merging another aggregate into an existing one leaves \<open>number\<close>,
  \<open>identity\<close>, \<open>operator\<close>, \<open>imei\<close>, \<open>firstActivity\<close> and \<open>lastActivity\<close> of the
  existing one as they are, and in the merged list these fields of every aggregate are
  those of the first aggregate of its number among the successful results.
\<close>

theorem merge_frame:
  "frame (merge_into existing phone) = frame existing
   \<and> map frame (merge_results results) = map frame (first_by_number [] (incoming results))"
  by (simp add: merge_results_def merge_results_incoming foldl_merge_phone_frame)

theorem merge_frame_witness:
  "map (\<lambda>p. (firstActivity p, lastActivity p, identity p, callCount p, smsCount p,
             map dateTime (records p)))
     (merge_results [result_of ''a.xlsx'' [phone_first], result_of ''b.xlsx'' [phone_later]])
   = [(Some 2000, Some 2000, Some ''Abena'', 1, 1, [Some 1000, Some 2000])]
   \<and> map frame (first_by_number []
         (incoming [result_of ''a.xlsx'' [phone_first], result_of ''b.xlsx'' [phone_later]]))
     = [frame phone_first]"
  using merge_frame [of phone_first phone_later
      "[result_of ''a.xlsx'' [phone_first], result_of ''b.xlsx'' [phone_later]]"]
  by (simp add: merge_results_def merge_result_def result_of_def incoming_def merge_into_def
      phone_first_def phone_later_def frame_def time_key_def rec_call_def rec_sms_def)

subsection \<open>Locations across files\<close>

text \<open>
  Claim C1 at two files, each with one call of the number 699111222, at two locations
  \<open>0.00001\<close> degrees apart: the merged aggregate has \<open>callCount = 2\<close> and both
  locations, although the two are duplicates under the epsilon-box rule. The merge
  compares coordinates for equality.
\<close>

theorem merge_keeps_near_locations:
  "map (\<lambda>p. (number p, callCount p, smsCount p, locations p))
     (merge_results [upload_result sample_runtime (''a.xlsx'', workbook_call),
                     upload_result sample_runtime (''b.xlsx'', workbook_near)])
   = [(''699111222'', 2, 0, [bastos, bastos_near])]
   \<and> near bastos bastos_near"
proof -
  have "phoneNumbers (parseExcelFile sample_runtime workbook_call ''a.xlsx'') =
          aggregateByPhoneNumber (parse_records sample_runtime workbook_call) []"
    "phoneNumbers (parseExcelFile sample_runtime workbook_near ''b.xlsx'') =
          aggregateByPhoneNumber (parse_records sample_runtime workbook_near) []"
    by (simp_all add: workbook_near_def workbook_call_def phones_of_parse)
  then show ?thesis
    by (simp add: merge_results_def merge_result_def upload_result_def serialize_phones_def
        parse_workbook_near parse_workbook_call aggregate_listing_record is_sms_samples
        merge_into_def add_location_def near_def bastos_def bastos_near_def)
qed

subsection \<open>The location expression\<close>





lemma regex_search_SomeD:
  "regex_search m s = Some r \<Longrightarrow> \<exists>pre t. s = pre @ t \<and> m t = Some r"
proof (induction s)
  case Nil
  then show ?case by simp
next
  case (Cons c s)
  show ?case
  proof (cases "m (c # s)")
    case None
    with Cons.prems have "regex_search m s = Some r" by simp
    then obtain pre t where "s = pre @ t" "m t = Some r" using Cons.IH by blast
    then have "c # s = (c # pre) @ t \<and> m t = Some r" by simp
    then show ?thesis by blast
  next
    case (Some r')
    with Cons.prems have "c # s = [] @ (c # s) \<and> m (c # s) = Some r" by simp
    then show ?thesis by blast
  qed
qed



lemma upper_not_plain: "c \<in> set upper_chars \<Longrightarrow> \<not> coord_char c \<and> \<not> is_space c"
  unfolding upper_chars_def coord_char_def is_digit_def is_space_def by auto

lemma lower_char_plain: "coord_char c \<or> is_space c \<Longrightarrow> lower_char c = c"
proof -
  assume a: "coord_char c \<or> is_space c"
  have "map_of (zip upper_chars lower_chars) c = None"
  proof (cases "map_of (zip upper_chars lower_chars) c")
    case None
    then show ?thesis .
  next
    case (Some d)
    then have "(c, d) \<in> set (zip upper_chars lower_chars)" by (rule map_of_SomeD)
    then have "c \<in> set upper_chars" by (rule set_zip_leftD)
    with a upper_not_plain show ?thesis by blast
  qed
  then show ?thesis by (simp add: lower_char_def)
qed

lemma toLowerCase_Cons_hd:
  assumes "toLowerCase a = x # xs" and "lower_char x = x" and "\<not> coord_char x" "\<not> is_space x"
  shows "a \<noteq> [] \<and> \<not> coord_char (hd a) \<and> \<not> is_space (hd a)"
proof (cases a)
  case Nil
  with assms(1) show ?thesis by (simp add: toLowerCase_def)
next
  case (Cons c cs)
  with assms(1) have l: "lower_char c = x" by (simp add: toLowerCase_def)
  have "\<not> (coord_char c \<or> is_space c)"
  proof
    assume "coord_char c \<or> is_space c"
    then have "lower_char c = c" by (rule lower_char_plain)
    with l assms(3,4) \<open>coord_char c \<or> is_space c\<close> show False by auto
  qed
  with Cons show ?thesis by simp
qed

lemma char_l_plain:
  "lower_char (CHR ''l'') = CHR ''l''" "\<not> coord_char (CHR ''l'')" "\<not> is_space (CHR ''l'')"
  by (simp_all add: lower_char_def upper_chars_def lower_chars_def coord_char_def
      is_digit_def is_space_def)

lemma long_tag:
  assumes "toLowerCase a = ''long:''"
  shows "length a = 5" and "a \<noteq> []" and "\<not> coord_char (hd a)" and "\<not> is_space (hd a)"
proof -
  have "length (toLowerCase a) = length a" by (simp add: toLowerCase_def)
  then show "length a = 5" using assms by simp
  show "a \<noteq> []" "\<not> coord_char (hd a)" "\<not> is_space (hd a)"
    using toLowerCase_Cons_hd [OF assms char_l_plain] by simp_all
qed













lemma digit_is_coord: "is_digit c \<Longrightarrow> coord_char c"
  by (simp add: coord_char_def)












end
